theory Spec2Isabelle
  imports Main
begin

section \<open>Go strings: the functions of package strings that the program calls\<close>

text \<open>
  Go strings are byte strings; \<^typ>\<open>string\<close> is a list of 8-bit characters. The functions
  below are the ones the program calls from package \<^verbatim>\<open>strings\<close>, on the byte level. White
  space is the ASCII set of \<^verbatim>\<open>strings.TrimSpace\<close> (tab, newline, vertical tab, form feed,
  carriage return, space); the Unicode-only spaces, which are several bytes in UTF-8, are
  ordinary bytes here.
\<close>

definition dquote :: char where
  "dquote = CHR 0x22"

definition asciiSpace :: "char \<Rightarrow> bool" where
  "asciiSpace c = (c \<in> set [CHR 0x09, CHR 0x0A, CHR 0x0B, CHR 0x0C, CHR 0x0D, CHR 0x20])"

definition TrimSpace :: "string \<Rightarrow> string" where
  "TrimSpace s = rev (dropWhile asciiSpace (rev (dropWhile asciiSpace s)))"

text \<open>\<^verbatim>\<open>strings.Trim(s, "\"")\<close>: all leading and all trailing double quotes are removed.\<close>

definition Trim_quote :: "string \<Rightarrow> string" where
  "Trim_quote s = rev (dropWhile (\<lambda>c. c = dquote) (rev (dropWhile (\<lambda>c. c = dquote) s)))"

text \<open>\<^verbatim>\<open>strings.ReplaceAll(s, "\"", "")\<close>: every double quote is removed.\<close>

definition ReplaceAll_quote :: "string \<Rightarrow> string" where
  "ReplaceAll_quote s = filter (\<lambda>c. c \<noteq> dquote) s"

definition HasPrefix :: "string \<Rightarrow> string \<Rightarrow> bool" where
  "HasPrefix s p = (take (length p) s = p)"

fun Contains :: "string \<Rightarrow> string \<Rightarrow> bool" where
  "Contains [] sub = (sub = [])"
| "Contains (c # s) sub = (HasPrefix (c # s) sub \<or> Contains s sub)"

section \<open>The hclwrite document model\<close>

text \<open>
  A token has a type, its bytes and the number of spaces written before it;
  \<^verbatim>\<open>Tokens.Bytes()\<close> writes, for each token, the spaces and then the bytes. Tokens that come
  from parsing carry the spacing of the source text. Tokens that the library builds are given
  their spacing by the library's formatting pass, which is not part of this development: they
  are shown with no space before them.
\<close>

datatype token_type =
    TokenIdent | TokenDot | TokenNotEqual | TokenQuestion | TokenColon | TokenComma
  | TokenOParen | TokenCParen | TokenOQuote | TokenCQuote | TokenQuotedLit
  | TokenNumberLit | TokenOBrack | TokenCBrack | TokenOBrace | TokenCBrace
  | TokenEqual | TokenNewline | TokenTemplateInterp | TokenTemplateSeqEnd

record token =
  Type :: token_type
  Bytes :: string
  SpacesBefore :: nat

type_synonym tokens = "token list"

definition Token :: "token_type \<Rightarrow> string \<Rightarrow> token" where
  "Token ty bs = \<lparr>Type = ty, Bytes = bs, SpacesBefore = 0\<rparr>"

definition tokens_Bytes :: "tokens \<Rightarrow> string" where
  "tokens_Bytes ts = concat (map (\<lambda>t. replicate (SpacesBefore t) CHR 0x20 @ Bytes t) ts)"

datatype cty_value = StringVal string | NullVal

text \<open>
  The escaping of a quoted string literal, on ASCII text: the characters with an escape of
  their own, the doubling of a template introducer before an opening brace, and the
  unprintable control characters (written as a four-digit code point).
\<close>

definition hexdigit :: "nat \<Rightarrow> char" where
  "hexdigit n = (if n < 10 then char_of (48 + n) else char_of (87 + n))"

fun escapeQuotedStringLit :: "string \<Rightarrow> string" where
  "escapeQuotedStringLit [] = []"
| "escapeQuotedStringLit (c # s) =
     (if c = CHR 0x0A then [CHR 0x5C, CHR ''n'']
      else if c = CHR 0x0D then [CHR 0x5C, CHR ''r'']
      else if c = CHR 0x09 then [CHR 0x5C, CHR ''t'']
      else if c = dquote then [CHR 0x5C, dquote]
      else if c = CHR 0x5C then [CHR 0x5C, CHR 0x5C]
      else if c = CHR ''$'' \<or> c = CHR ''%'' then
        (case s of d # _ \<Rightarrow> if d = CHR ''{'' then [c, c] else [c] | [] \<Rightarrow> [c])
      else if (of_char c :: nat) < 32 \<or> (of_char c :: nat) = 127 then
        [CHR 0x5C, CHR ''u'', CHR ''0'', CHR ''0'',
         hexdigit ((of_char c :: nat) div 16), hexdigit ((of_char c :: nat) mod 16)]
      else [c])
     @ escapeQuotedStringLit s"

declare escapeQuotedStringLit.simps [simp del]

definition TokensForIdentifier :: "string \<Rightarrow> tokens" where
  "TokensForIdentifier name = [Token TokenIdent name]"

fun TokensForValue :: "cty_value \<Rightarrow> tokens" where
  "TokensForValue NullVal = [Token TokenIdent ''null'']"
| "TokensForValue (StringVal s) =
     (let src = escapeQuotedStringLit s in
      [Token TokenOQuote [dquote]]
      @ (if length src > 0 then [Token TokenQuotedLit src] else [])
      @ [Token TokenCQuote [dquote]])"

declare TokensForValue.simps [simp del]

fun join_args :: "tokens list \<Rightarrow> tokens" where
  "join_args [] = []"
| "join_args [a] = a"
| "join_args (a # b # rest) = a @ [Token TokenComma '',''] @ join_args (b # rest)"

definition TokensForFunctionCall :: "string \<Rightarrow> tokens list \<Rightarrow> tokens" where
  "TokensForFunctionCall funcName args =
     TokensForIdentifier funcName @ [Token TokenOParen ''(''] @ join_args args
     @ [Token TokenCParen '')'']"

text \<open>
  A block has a type keyword, labels, and a body: the attributes in their order (a name and
  the tokens of its expression) and the nested blocks.
\<close>

datatype block = Block (block_Type: string) (Labels: "string list")
  (Attrs: "(string \<times> tokens) list") (Nested: "block list")

definition NewBlock :: "string \<Rightarrow> string list \<Rightarrow> block" where
  "NewBlock typeName labels = Block typeName labels [] []"

text \<open>\<^verbatim>\<open>GetAttribute\<close> returns nil (\<open>None\<close>) when the body has no attribute of that name.\<close>

definition GetAttribute :: "block \<Rightarrow> string \<Rightarrow> tokens option" where
  "GetAttribute b name = map_of (Attrs b) name"

fun set_attr :: "(string \<times> tokens) list \<Rightarrow> string \<Rightarrow> tokens \<Rightarrow> (string \<times> tokens) list" where
  "set_attr [] name ts = [(name, ts)]"
| "set_attr ((n, old) # rest) name ts =
     (if n = name then (n, ts) # rest else (n, old) # set_attr rest name ts)"

text \<open>
  \<^verbatim>\<open>SetAttributeRaw\<close> replaces the expression of an attribute that exists, in its place, and
  appends a new attribute otherwise; \<^verbatim>\<open>SetAttributeValue\<close> does so with the tokens of a value.
\<close>

definition SetAttributeRaw :: "block \<Rightarrow> string \<Rightarrow> tokens \<Rightarrow> block" where
  "SetAttributeRaw b name ts = Block (block_Type b) (Labels b) (set_attr (Attrs b) name ts) (Nested b)"

definition SetAttributeValue :: "block \<Rightarrow> string \<Rightarrow> cty_value \<Rightarrow> block" where
  "SetAttributeValue b name v = SetAttributeRaw b name (TokensForValue v)"

text \<open>A file body: blocks, newlines, and whatever else stands at the top level (comments,
  attributes), which the program never reads.\<close>

datatype node = Newline | BlockNode block | Unstructured tokens

fun Blocks :: "node list \<Rightarrow> block list" where
  "Blocks [] = []"
| "Blocks (Newline # ns) = Blocks ns"
| "Blocks (Unstructured ts # ns) = Blocks ns"
| "Blocks (BlockNode b # ns) = b # Blocks ns"

section \<open>Panics\<close>

text \<open>
  A Go panic ends the process; it is not an error value that a caller sees. The two panics
  the code can raise are a method call through a nil attribute and an index into an empty
  label slice.
\<close>

datatype panic = NilPointerDereference | IndexOutOfRange

section \<open>The output synthesizer (generate-root-only variant)\<close>

definition Sprintf_defaults :: "string \<Rightarrow> string \<Rightarrow> string" where
  "Sprintf_defaults descriptionValue defaultValue =
     descriptionValue @ '' Defaults to `'' @ defaultValue @ ''`.''"

text \<open>
  The body of the loop of \<^verbatim>\<open>syncAddonVariables\<close> after the exclusion test: the new block
  with the type copied (through the attribute, without a nil check), the default set to
  null, and the description, when there is one, with the sentence on the default appended
  when there is a default (the type is read a second time there, again without a nil check).
\<close>

definition default_display :: "block \<Rightarrow> tokens \<Rightarrow> panic + string" where
  "default_display block defaultAttribute =
     (let defaultValue = TrimSpace (tokens_Bytes defaultAttribute) in
      case GetAttribute block ''type'' of
        None \<Rightarrow> Inl NilPointerDereference
      | Some ty \<Rightarrow>
          (let typeAttribute = Trim_quote (TrimSpace (tokens_Bytes ty));
               defaultValue = (if typeAttribute = ''string'' then Trim_quote defaultValue
                               else defaultValue);
               defaultValue = (if defaultValue = [] then [dquote, dquote] else defaultValue)
           in Inr defaultValue))"

definition new_variable :: "block \<Rightarrow> panic + block" where
  "new_variable block =
     (let variable = NewBlock ''variable'' (Labels block) in
      case GetAttribute block ''type'' of
        None \<Rightarrow> Inl NilPointerDereference
      | Some ty \<Rightarrow>
          (let variable = SetAttributeRaw variable ''type'' ty;
               variable = SetAttributeRaw variable ''default'' (TokensForValue NullVal)
           in case GetAttribute block ''description'' of
                None \<Rightarrow> Inr variable
              | Some descriptionAtrribute \<Rightarrow>
                  (let descriptionValue =
                         ReplaceAll_quote (Trim_quote (TrimSpace (tokens_Bytes descriptionAtrribute)))
                   in case GetAttribute block ''default'' of
                        None \<Rightarrow>
                          Inr (SetAttributeRaw variable ''description''
                                 (TokensForValue (StringVal descriptionValue)))
                      | Some defaultAttribute \<Rightarrow>
                          (case default_display block defaultAttribute of
                             Inl p \<Rightarrow> Inl p
                           | Inr defaultValue \<Rightarrow>
                               Inr (SetAttributeRaw variable ''description''
                                      (TokensForValue (StringVal
                                         (Sprintf_defaults descriptionValue defaultValue))))))))"

text \<open>
  The loop of \<^verbatim>\<open>syncAddonVariables\<close>: the file built so far is the accumulator; a block
  named "enabled" is skipped; every other block contributes a newline and its new block.
\<close>

fun synthesize :: "block list \<Rightarrow> node list \<Rightarrow> panic + node list" where
  "synthesize [] file = Inr file"
| "synthesize (block # rest) file =
     (case Labels block of
        [] \<Rightarrow> Inl IndexOutOfRange
      | l # _ \<Rightarrow>
          if l = ''enabled'' then synthesize rest file
          else (case new_variable block of
                  Inl p \<Rightarrow> Inl p
                | Inr variable \<Rightarrow> synthesize rest (file @ [Newline, BlockNode variable])))"

section \<open>The output synthesizer (legacy variant)\<close>

text \<open>
  The legacy \<^verbatim>\<open>syncAddonVariables\<close> changes the extracted block itself: the description is
  rewritten only when both a description and a default exist (all quotes removed from both
  texts, whatever the type), and the default is set to null.
\<close>

definition legacy_variable :: "block \<Rightarrow> block" where
  "legacy_variable block =
     (let block =
        (case GetAttribute block ''description'' of
           None \<Rightarrow> block
         | Some descriptionAtrribute \<Rightarrow>
             (case GetAttribute block ''default'' of
                None \<Rightarrow> block
              | Some defaultAttribute \<Rightarrow>
                  (let defaultValue = TrimSpace (ReplaceAll_quote (tokens_Bytes defaultAttribute));
                       defaultValue = (if defaultValue = [] then [dquote, dquote] else defaultValue);
                       descriptionValue =
                         TrimSpace (ReplaceAll_quote (tokens_Bytes descriptionAtrribute))
                   in SetAttributeValue block ''description''
                        (StringVal (Sprintf_defaults descriptionValue defaultValue)))))
      in SetAttributeValue block ''default'' NullVal)"

fun synthesize_legacy :: "block list \<Rightarrow> node list \<Rightarrow> panic + node list" where
  "synthesize_legacy [] file = Inr file"
| "synthesize_legacy (block # rest) file =
     (case Labels block of
        [] \<Rightarrow> Inl IndexOutOfRange
      | l # _ \<Rightarrow>
          if l = ''enabled'' then synthesize_legacy rest file
          else synthesize_legacy rest (file @ [Newline, BlockNode (legacy_variable block)]))"

section \<open>The declaration extractor\<close>

text \<open>
  The operating system, as far as the program reads and writes it: the listing of a
  directory (or the error of reading it), the files with their bytes (a path with no file
  cannot be read), and the paths that can be written. Log messages have no effect on what
  the functions return and are left out.
\<close>

datatype os_error = ErrNotExist | ErrPermission

record DirEntry =
  Name :: string
  IsDir :: bool

record fs =
  ReadDir :: "string \<Rightarrow> os_error + DirEntry list"
  files :: "string \<rightharpoonup> string"
  writable :: "string \<Rightarrow> bool"

datatype ctx_error = Canceled | DeadlineExceeded

datatype error =
    FailedToReadDirectory string os_error
  | ContextErr ctx_error
  | EncounteredErrors nat
  | FailedToParseVariables error
  | FailedToSyncAddonDefaults error
  | FailedToSyncAddonVariables error
  | FailedToReadFile string
  | FailedToParseHCL string string
  | FailedToWriteFile string

definition ReadFile :: "fs \<Rightarrow> string \<Rightarrow> error + string" where
  "ReadFile w filePath =
     (case files w filePath of None \<Rightarrow> Inl (FailedToReadFile filePath) | Some src \<Rightarrow> Inr src)"

definition WriteFile :: "fs \<Rightarrow> string \<Rightarrow> string \<Rightarrow> error + fs" where
  "WriteFile w filePath bs =
     (if writable w filePath then Inr (w\<lparr>files := (files w)(filePath \<mapsto> bs)\<rparr>)
      else Inl (FailedToWriteFile filePath))"

text \<open>
  The parser and the serializer of the HCL library are parameters: \<open>ParseConfig\<close> gives the
  diagnostics of a malformed text or the body of the file, \<open>FileBytes\<close> the bytes of a body.
\<close>

record hcl =
  ParseConfig :: "string \<Rightarrow> string + node list"
  FileBytes :: "node list \<Rightarrow> string"

text \<open>
  \<^verbatim>\<open>filepath.Join\<close>: the non-empty elements with a separator between them. The cleaning of
  the result (dots, doubled separators) is left out: paths are only keys of the file system
  here.
\<close>

fun join_path :: "string list \<Rightarrow> string" where
  "join_path [] = []"
| "join_path [p] = p"
| "join_path (p # q # rest) = p @ ''/'' @ join_path (q # rest)"

definition Join :: "string list \<Rightarrow> string" where
  "Join elems = join_path (filter (\<lambda>e. e \<noteq> []) elems)"

definition sourceVariableFileName :: string where
  "sourceVariableFileName = ''variables.tf''"

definition targetVariableFilePattern :: "string \<Rightarrow> string" where
  "targetVariableFilePattern moduleName = ''variables-'' @ moduleName @ ''.tf''"

definition targetAddonFilePattern :: "string \<Rightarrow> string" where
  "targetAddonFilePattern moduleName = moduleName @ ''.tf''"

definition modulePrefix :: string where
  "modulePrefix = ''addon''"

definition extractVariables :: "hcl \<Rightarrow> string \<Rightarrow> fs \<Rightarrow> error + block list" where
  "extractVariables lib filePath w =
     (case ReadFile w filePath of
        Inl e \<Rightarrow> Inl e
      | Inr src \<Rightarrow>
          (case ParseConfig lib src of
             Inl diags \<Rightarrow> Inl (FailedToParseHCL filePath diags)
           | Inr file \<Rightarrow>
               Inr (filter (\<lambda>block. block_Type block = ''variable'' \<and> length (Labels block) \<noteq> 0)
                      (Blocks file))))"

section \<open>Writing the root-facing file\<close>

datatype 'a outcome = Panics panic | Returns 'a

record VariableProcessor =
  workDir :: string
  targetDir :: string
  modulesDir :: string

definition NewVariableProcessor :: "string \<Rightarrow> string \<Rightarrow> string \<Rightarrow> VariableProcessor" where
  "NewVariableProcessor wd td md = \<lparr>workDir = wd, targetDir = td, modulesDir = Join [wd, md]\<rparr>"

text \<open>
  The banner template always executes on a byte slice: its result is the banner line, a
  newline and the bytes of the file.
\<close>

definition banner :: string where
  \<open>banner = ''# IMPORTANT: This file is synced with the "terraform-aws-eks-universal-addon" template. Any changes to this file might be overwritten upon the next release of the template.''\<close>

definition banner_legacy :: string where
  \<open>banner_legacy = ''# IMPORTANT: This file is synced with the "terraform-aws-eks-universal-addon" module. Any changes to this file might be overwritten upon the next release of that module.''\<close>

definition syncAddonVariables ::
  "hcl \<Rightarrow> VariableProcessor \<Rightarrow> string \<Rightarrow> block list \<Rightarrow> fs \<Rightarrow> (error option \<times> fs) outcome" where
  "syncAddonVariables lib vp moduleName varFile w =
     (case synthesize varFile [] of
        Inl p \<Rightarrow> Panics p
      | Inr file \<Rightarrow>
          (let buf = banner @ [CHR 0x0A] @ FileBytes lib file;
               targetPath = Join [targetDir vp, targetVariableFilePattern moduleName]
           in case WriteFile w targetPath buf of
                Inl e \<Rightarrow> Returns (Some e, w)
              | Inr w' \<Rightarrow> Returns (None, w')))"

definition processModule ::
  "hcl \<Rightarrow> VariableProcessor \<Rightarrow> string \<Rightarrow> fs \<Rightarrow> (error option \<times> fs) outcome" where
  "processModule lib vp moduleName w =
     (let sourcePath = Join [modulesDir vp, moduleName, ''modules'', moduleName,
                             sourceVariableFileName]
      in case extractVariables lib sourcePath w of
           Inl err \<Rightarrow> Returns (Some (FailedToParseVariables err), w)
         | Inr file \<Rightarrow>
             (case syncAddonVariables lib vp moduleName file w of
                Panics p \<Rightarrow> Panics p
              | Returns (Some syncVarErr, w') \<Rightarrow>
                  Returns (Some (FailedToSyncAddonVariables syncVarErr), w')
              | Returns (None, w') \<Rightarrow> Returns (None, w')))"

section \<open>The default-rewrite engine (legacy variant)\<close>

text \<open>
  The table of defaults: for each extracted block, in order, the tokens of its default
  expression, or the tokens of the null value when it has none. A later block of the same
  name overwrites the entry.
\<close>

fun build_defaults :: "block list \<Rightarrow> (string \<rightharpoonup> tokens) \<Rightarrow> panic + (string \<rightharpoonup> tokens)" where
  "build_defaults [] defaults = Inr defaults"
| "build_defaults (block # rest) defaults =
     (case Labels block of
        [] \<Rightarrow> Inl IndexOutOfRange
      | name # _ \<Rightarrow>
          (case GetAttribute block ''default'' of
             Some defaultAttribute \<Rightarrow> build_defaults rest (defaults(name \<mapsto> defaultAttribute))
           | None \<Rightarrow> build_defaults rest (defaults(name \<mapsto> TokensForValue NullVal))))"

text \<open>Reading a Go map at a key it does not have gives the zero value: no tokens.\<close>

definition defaults_at :: "(string \<rightharpoonup> tokens) \<Rightarrow> string \<Rightarrow> tokens" where
  "defaults_at defaults name = (case defaults name of None \<Rightarrow> [] | Some ts \<Rightarrow> ts)"

definition ternary_tokens :: "(string \<rightharpoonup> tokens) \<Rightarrow> string \<Rightarrow> tokens" where
  "ternary_tokens defaults name =
     (let tokens = TokensForIdentifier ''var'';
          tokens = tokens @ [Token TokenDot ''.''];
          tokens = tokens @ TokensForIdentifier name;
          tokens = tokens @ [Token TokenNotEqual ''!=''];
          tokens = tokens @ TokensForIdentifier ''null'';
          tokens = tokens @ [Token TokenQuestion ''?''];
          tokens = tokens @ TokensForIdentifier ''var'';
          tokens = tokens @ [Token TokenDot ''.''];
          tokens = tokens @ TokensForIdentifier name;
          tokens = tokens @ [Token TokenColon '':''];
          lookupTokens = TokensForIdentifier ''local'';
          lookupTokens = lookupTokens @ [Token TokenDot ''.''];
          lookupTokens = lookupTokens @ TokensForIdentifier ''addon'';
          lookupTokens = lookupTokens @ [Token TokenComma '',''];
          lookupTokens = lookupTokens @ TokensForValue (StringVal name);
          lookupTokens = lookupTokens @ [Token TokenComma '',''];
          lookupTokens = lookupTokens @ defaults_at defaults name
      in tokens @ TokensForFunctionCall ''lookup'' [lookupTokens])"

text \<open>
  The attributes of a module block are visited one by one (here in the order of the body;
  the names of a parsed body are distinct, so the order of the visit does not matter), and
  an attribute whose expression text contains a marker is set to the ternary.
\<close>

definition rewrite_attribute ::
  "(string \<rightharpoonup> tokens) \<Rightarrow> block \<Rightarrow> string \<times> tokens \<Rightarrow> block" where
  "rewrite_attribute defaults block na =
     (case na of (name, attribute) \<Rightarrow>
        (let expr = tokens_Bytes attribute in
         if Contains expr ''try'' \<or> Contains expr ''lookup''
         then SetAttributeRaw block name (ternary_tokens defaults name)
         else block))"

definition rewrite_block :: "(string \<rightharpoonup> tokens) \<Rightarrow> block \<Rightarrow> block" where
  "rewrite_block defaults block =
     (if block_Type block \<noteq> ''module'' then block
      else foldl (rewrite_attribute defaults) block (Attrs block))"

fun rewrite_file :: "(string \<rightharpoonup> tokens) \<Rightarrow> node list \<Rightarrow> node list" where
  "rewrite_file defaults [] = []"
| "rewrite_file defaults (Newline # ns) = Newline # rewrite_file defaults ns"
| "rewrite_file defaults (Unstructured ts # ns) = Unstructured ts # rewrite_file defaults ns"
| "rewrite_file defaults (BlockNode b # ns) =
     BlockNode (rewrite_block defaults b) # rewrite_file defaults ns"

definition syncAddonDefaults ::
  "hcl \<Rightarrow> string \<Rightarrow> block list \<Rightarrow> fs \<Rightarrow> (error option \<times> fs) outcome" where
  "syncAddonDefaults lib moduleName varFile w =
     (let filePath = targetAddonFilePattern moduleName in
      case ReadFile w filePath of
        Inl e \<Rightarrow> Returns (Some e, w)
      | Inr src \<Rightarrow>
          (case ParseConfig lib src of
             Inl diags \<Rightarrow> Returns (Some (FailedToParseHCL filePath diags), w)
           | Inr file \<Rightarrow>
               (case build_defaults varFile Map.empty of
                  Inl p \<Rightarrow> Panics p
                | Inr defaults \<Rightarrow>
                    (case WriteFile w filePath (FileBytes lib (rewrite_file defaults file)) of
                       Inl e \<Rightarrow> Returns (Some e, w)
                     | Inr w' \<Rightarrow> Returns (None, w')))))"

definition syncAddonVariables_legacy ::
  "hcl \<Rightarrow> string \<Rightarrow> block list \<Rightarrow> fs \<Rightarrow> (error option \<times> fs) outcome" where
  "syncAddonVariables_legacy lib moduleName varFile w =
     (let filePath = targetVariableFilePattern moduleName in
      case synthesize_legacy varFile [] of
        Inl p \<Rightarrow> Panics p
      | Inr file \<Rightarrow>
          (let buf = banner_legacy @ [CHR 0x0A] @ FileBytes lib file
           in case WriteFile w filePath buf of
                Inl e \<Rightarrow> Returns (Some e, w)
              | Inr w' \<Rightarrow> Returns (None, w')))"

definition processSingleModule ::
  "hcl \<Rightarrow> string \<Rightarrow> string \<Rightarrow> fs \<Rightarrow> (error option \<times> fs) outcome" where
  "processSingleModule lib modulesBaseDir moduleName w =
     (let sourcePath = Join [modulesBaseDir, moduleName, ''modules'', moduleName,
                             sourceVariableFileName]
      in case extractVariables lib sourcePath w of
           Inl err \<Rightarrow> Returns (Some (FailedToParseVariables err), w)
         | Inr file \<Rightarrow>
             (case syncAddonDefaults lib moduleName file w of
                Panics p \<Rightarrow> Panics p
              | Returns (Some syncErr, w') \<Rightarrow>
                  Returns (Some (FailedToSyncAddonDefaults syncErr), w')
              | Returns (None, w') \<Rightarrow>
                  (case syncAddonVariables_legacy lib moduleName file w' of
                     Panics p \<Rightarrow> Panics p
                   | Returns (Some syncVarErr, w'') \<Rightarrow>
                       Returns (Some (FailedToSyncAddonVariables syncVarErr), w'')
                   | Returns (None, w'') \<Rightarrow> Returns (None, w''))))"

section \<open>The module orchestrator\<close>

text \<open>
  The context is observed once per directory entry, at the head of the loop. A context is
  done from some observation on and stays done: \<open>DoneFrom n e\<close> is first seen done at
  observation \<open>n\<close> (counted from 0), with \<open>e\<close> the value of \<^verbatim>\<open>ctx.Err()\<close>; a context that is
  already cancelled or expired when the call starts is \<open>DoneFrom 0 e\<close>.
\<close>

datatype Context = NeverDone | DoneFrom nat ctx_error

definition ctx_Err :: "Context \<Rightarrow> nat \<Rightarrow> ctx_error option" where
  "ctx_Err ctx i = (case ctx of NeverDone \<Rightarrow> None
                    | DoneFrom n e \<Rightarrow> if n \<le> i then Some e else None)"

text \<open>
  The state of a run: the three counters, the modules handed to the per-module function, in
  order, each with the error it returned (\<open>None\<close> for nil), and the file system.
\<close>

record run =
  processedCount :: nat
  skippedCount :: nat
  errorCount :: nat
  calls :: "(string \<times> error option) list"
  world :: fs

definition start :: "fs \<Rightarrow> run" where
  "start w = \<lparr>processedCount = 0, skippedCount = 0, errorCount = 0, calls = [], world = w\<rparr>"

fun process_entries ::
  "(string \<Rightarrow> fs \<Rightarrow> (error option \<times> fs) outcome) \<Rightarrow> Context \<Rightarrow> nat \<Rightarrow> DirEntry list \<Rightarrow> run
   \<Rightarrow> (error option \<times> run) outcome" where
  "process_entries proc ctx i [] st =
     (if errorCount st > 0 then Returns (Some (EncounteredErrors (errorCount st)), st)
      else Returns (None, st))"
| "process_entries proc ctx i (entry # rest) st =
     (case ctx_Err ctx i of
        Some e \<Rightarrow> Returns (Some (ContextErr e), st)
      | None \<Rightarrow>
          if \<not> IsDir entry then process_entries proc ctx (Suc i) rest st
          else if \<not> HasPrefix (Name entry) modulePrefix \<or> Contains (Name entry) ''.''
          then process_entries proc ctx (Suc i) rest (st\<lparr>skippedCount := skippedCount st + 1\<rparr>)
          else (case proc (Name entry) (world st) of
                  Panics p \<Rightarrow> Panics p
                | Returns (Some procErr, w) \<Rightarrow>
                    process_entries proc ctx (Suc i) rest
                      (st\<lparr>errorCount := errorCount st + 1,
                          calls := calls st @ [(Name entry, Some procErr)], world := w\<rparr>)
                | Returns (None, w) \<Rightarrow>
                    process_entries proc ctx (Suc i) rest
                      (st\<lparr>processedCount := processedCount st + 1,
                          calls := calls st @ [(Name entry, None)], world := w\<rparr>)))"

text \<open>
  \<^verbatim>\<open>ProcessModules\<close>, with the per-module function as a parameter: the two variants of the
  program have the same loop and differ in the function they call.
\<close>

definition ProcessModules_with ::
  "(string \<Rightarrow> fs \<Rightarrow> (error option \<times> fs) outcome) \<Rightarrow> Context \<Rightarrow> string \<Rightarrow> fs
   \<Rightarrow> (error option \<times> run) outcome" where
  "ProcessModules_with proc ctx dir w =
     (case ReadDir w dir of
        Inl err \<Rightarrow>
          if err = ErrNotExist then Returns (None, start w)
          else Returns (Some (FailedToReadDirectory dir err), start w)
      | Inr entries \<Rightarrow> process_entries proc ctx 0 entries (start w))"

definition ProcessModules ::
  "hcl \<Rightarrow> VariableProcessor \<Rightarrow> Context \<Rightarrow> fs \<Rightarrow> (error option \<times> run) outcome" where
  "ProcessModules lib vp ctx w = ProcessModules_with (processModule lib vp) ctx (modulesDir vp) w"

definition ProcessModules_legacy ::
  "hcl \<Rightarrow> Context \<Rightarrow> string \<Rightarrow> fs \<Rightarrow> (error option \<times> run) outcome" where
  "ProcessModules_legacy lib ctx dir w =
     ProcessModules_with (processSingleModule lib dir) ctx dir w"

section \<open>Predicates for the statements\<close>

text \<open>A block is named "enabled" when that is its first label.\<close>

definition named_enabled :: "block \<Rightarrow> bool" where
  "named_enabled b = (case Labels b of [] \<Rightarrow> False | l # _ \<Rightarrow> l = ''enabled'')"










text \<open>What a call returned, without the state of the run.\<close>

fun returned :: "(error option \<times> run) outcome \<Rightarrow> error option outcome" where
  "returned (Panics p) = Panics p"
| "returned (Returns (r, st)) = Returns r"

text \<open>An expression has a marker when its text contains "try" or "lookup".\<close>

definition marked :: "tokens \<Rightarrow> bool" where
  "marked attribute = (Contains (tokens_Bytes attribute) ''try'' \<or> Contains (tokens_Bytes attribute) ''lookup'')"

text \<open>
  The ternary of the specification, token by token:
  \<^verbatim>\<open>var.<name> != null ? var.<name> : lookup(local.addon, "<name>", <default>)\<close>.
\<close>

definition spec_ternary :: "string \<Rightarrow> tokens \<Rightarrow> tokens" where
  "spec_ternary name dflt =
     [Token TokenIdent ''var'', Token TokenDot ''.'', Token TokenIdent name,
      Token TokenNotEqual ''!='', Token TokenIdent ''null'', Token TokenQuestion ''?'',
      Token TokenIdent ''var'', Token TokenDot ''.'', Token TokenIdent name,
      Token TokenColon '':'', Token TokenIdent ''lookup'', Token TokenOParen ''('',
      Token TokenIdent ''local'', Token TokenDot ''.'', Token TokenIdent ''addon'',
      Token TokenComma '','']
     @ TokensForValue (StringVal name) @ [Token TokenComma '',''] @ dflt
     @ [Token TokenCParen '')'']"

text \<open>The entry that a declaration contributes to the table of defaults.\<close>

definition default_entry :: "block \<Rightarrow> string \<times> tokens" where
  "default_entry block =
     (case Labels block of [] \<Rightarrow> ([], []) | name # _ \<Rightarrow>
        (name, case GetAttribute block ''default'' of
                 Some defaultAttribute \<Rightarrow> defaultAttribute
               | None \<Rightarrow> TokensForValue NullVal))"

section \<open>Example inputs\<close>

text \<open>
  Tokens as the parser gives them for an attribute written \<^verbatim>\<open>name = expression\<close>: the first
  token of the expression has one space before it. A quoted literal is an opening quote, the
  literal text (when it is not empty) and a closing quote.
\<close>

definition parsed :: "token_type \<Rightarrow> string \<Rightarrow> token" where
  "parsed ty bs = \<lparr>Type = ty, Bytes = bs, SpacesBefore = 1\<rparr>"

definition quoted :: "string \<Rightarrow> tokens" where
  "quoted s = parsed TokenOQuote [dquote]
     # (if s = [] then [] else [Token TokenQuotedLit s]) @ [Token TokenCQuote [dquote]]"

text \<open>
  Declarations: typed with a default, named "enabled", of a number type, without a default,
  the examples of the quoting policy, one of type any with a quoted default, and one without
  a type.
\<close>

definition ex_size :: block where
  "ex_size = Block ''variable'' [''size'']
     [(''type'', [parsed TokenIdent ''string'']), (''default'', quoted ''10''),
      (''description'', quoted ''Size of thing'')] []"

definition ex_enabled :: block where
  "ex_enabled = Block ''variable'' [''enabled'']
     [(''type'', [parsed TokenIdent ''bool'']), (''default'', [parsed TokenIdent ''true'']),
      (''description'', quoted ''Set to false to prevent the module from creating any resources.'')] []"

definition ex_replicas :: block where
  "ex_replicas = Block ''variable'' [''replicas'']
     [(''type'', [parsed TokenIdent ''number'']), (''default'', [parsed TokenNumberLit ''3'']),
      (''description'', quoted ''desc'')] []"

definition ex_namespace :: block where
  "ex_namespace = Block ''variable'' [''namespace'']
     [(''type'', [parsed TokenIdent ''string'']),
      (''description'', quoted ''The namespace to install into.'')] []"



definition ex_any :: block where
  "ex_any = Block ''variable'' [''values'']
     [(''type'', [parsed TokenIdent ''any'']), (''default'', quoted ''foo''),
      (''description'', quoted ''desc'')] []"

definition ex_untyped :: block where
  "ex_untyped = Block ''variable'' [''values'']
     [(''description'', quoted ''desc''), (''default'', quoted ''foo'')] []"

text \<open>
  An example world. The consumer block has an attribute with the \<^verbatim>\<open>try\<close> marker whose name
  is a declared variable, one with the \<^verbatim>\<open>lookup\<close> marker whose name is no declared
  variable, and two without a marker. The toy parser knows two source texts; the toy
  serializer writes one line for each block. The modules directory has a file, two addon
  directories (only the second has a variables file), a directory with a dot in its name and
  a directory that is no addon, in the order of the listing.
\<close>

definition ex_module :: block where
  "ex_module = Block ''module'' [''addon-irsa'']
     [(''source'', quoted ''./modules/addon-irsa''),
      (''enabled'', [parsed TokenIdent ''var'', Token TokenDot ''.'', Token TokenIdent ''enabled'']),
      (''size'', [parsed TokenIdent ''try'', Token TokenOParen ''('', Token TokenIdent ''var'',
                  Token TokenDot ''.'', Token TokenIdent ''size'', Token TokenComma '','']
                 @ quoted ''10'' @ [Token TokenCParen '')'']),
      (''mode'', [parsed TokenIdent ''lookup'', Token TokenOParen ''('', Token TokenIdent ''var'',
                  Token TokenDot ''.'', Token TokenIdent ''settings'', Token TokenComma '','']
                 @ quoted ''mode'' @ [Token TokenCParen '')''])] []"

definition ex_lib :: hcl where
  "ex_lib = \<lparr>ParseConfig = (\<lambda>src.
        if src = ''size'' then Inr [BlockNode ex_size, Newline, BlockNode ex_enabled]
        else if src = ''wiring'' then Inr [BlockNode ex_module]
        else Inl ''Invalid block definition''),
      FileBytes = (\<lambda>file. concat (map (\<lambda>b. block_Type b @ '' '' @ concat (Labels b) @ [CHR 0x0A])
                                    (Blocks file)))\<rparr>"

definition ex_vp :: VariableProcessor where
  "ex_vp = NewVariableProcessor ''work'' ''out'' ''modules''"

text \<open>Processors whose modules directory does not exist, or is empty.\<close>

definition ex_vp_absent :: VariableProcessor where
  "ex_vp_absent = NewVariableProcessor ''work'' ''out'' ''absent''"

definition ex_vp_empty :: VariableProcessor where
  "ex_vp_empty = NewVariableProcessor ''work'' ''out'' ''empty''"

definition ex_entries :: "DirEntry list" where
  "ex_entries = [\<lparr>Name = ''README.md'', IsDir = False\<rparr>,
                 \<lparr>Name = ''addon'', IsDir = True\<rparr>,
                 \<lparr>Name = ''addon-irsa'', IsDir = True\<rparr>,
                 \<lparr>Name = ''addon.x'', IsDir = True\<rparr>,
                 \<lparr>Name = ''vpc'', IsDir = True\<rparr>]"

definition ex_fs :: fs where
  "ex_fs = \<lparr>ReadDir = (\<lambda>dir. if dir = ''work/modules'' then Inr ex_entries
                          else if dir = ''work/empty'' then Inr []
                          else if dir = ''work/locked'' then Inl ErrPermission
                          else Inl ErrNotExist),
      files = [''work/modules/addon-irsa/modules/addon-irsa/variables.tf'' \<mapsto> ''size'',
               ''addon-irsa.tf'' \<mapsto> ''wiring''],
      writable = (\<lambda>p. True)\<rparr>"

section \<open>Attributes of the emitted blocks\<close>

lemma map_of_set_attr_same: "map_of (set_attr as name ts) name = Some ts"
  by (induction as name ts rule: set_attr.induct) auto

lemma map_of_set_attr_other:
  "n \<noteq> name \<Longrightarrow> map_of (set_attr as name ts) n = map_of as n"
  by (induction as name ts rule: set_attr.induct) auto

lemma GetAttribute_SetAttributeRaw_same:
  "GetAttribute (SetAttributeRaw b name ts) name = Some ts"
  by (simp add: GetAttribute_def SetAttributeRaw_def map_of_set_attr_same)

lemma GetAttribute_SetAttributeRaw_other:
  "n \<noteq> name \<Longrightarrow> GetAttribute (SetAttributeRaw b name ts) n = GetAttribute b n"
  by (simp add: GetAttribute_def SetAttributeRaw_def map_of_set_attr_other)

lemma Labels_SetAttributeRaw: "Labels (SetAttributeRaw b name ts) = Labels b"
  by (simp add: SetAttributeRaw_def)

lemma Blocks_append: "Blocks (xs @ ys) = Blocks xs @ Blocks ys"
  by (induction xs rule: Blocks.induct) auto

lemma new_variable_default:
  "new_variable block = Inr v \<Longrightarrow> GetAttribute v ''default'' = Some (TokensForValue NullVal)"
  by (auto simp: new_variable_def Let_def GetAttribute_SetAttributeRaw_same
        GetAttribute_SetAttributeRaw_other split: option.splits sum.splits)

lemma legacy_variable_default:
  "GetAttribute (legacy_variable block) ''default'' = Some (TokensForValue NullVal)"
  by (simp add: legacy_variable_def Let_def SetAttributeValue_def
        GetAttribute_SetAttributeRaw_same)

lemma Labels_new_variable: "new_variable block = Inr v \<Longrightarrow> Labels v = Labels block"
  by (auto simp: new_variable_def Let_def NewBlock_def Labels_SetAttributeRaw
        split: option.splits sum.splits)

lemma Labels_legacy_variable: "Labels (legacy_variable block) = Labels block"
  by (simp add: legacy_variable_def Let_def SetAttributeValue_def Labels_SetAttributeRaw
        split: option.splits)

section \<open>What the synthesizer emits\<close>

text \<open>
  The loop of the current synthesizer, when it does not panic, appends to the file one block
  for each declaration that is not named "enabled", in order and with the same labels, each
  with the null default.
\<close>

lemma synthesize_Blocks:
  "synthesize varFile acc = Inr out \<Longrightarrow>
     \<exists>vs. Blocks out = Blocks acc @ vs
       \<and> map Labels vs = map Labels (filter (\<lambda>b. \<not> named_enabled b) varFile)
       \<and> (\<forall>v\<in>set vs. GetAttribute v ''default'' = Some (TokensForValue NullVal))"
proof (induction varFile arbitrary: acc)
  case Nil
  then show ?case by simp
next
  case (Cons block rest)
  show ?case
  proof (cases "Labels block")
    case Nil
    with Cons.prems show ?thesis by simp
  next
    case (Cons l ls)
    show ?thesis
    proof (cases "l = ''enabled''")
      case True
      with Cons Cons.prems have "synthesize rest acc = Inr out" by simp
      from Cons.IH [OF this] True Cons show ?thesis
        by (simp add: named_enabled_def)
    next
      case False
      with Cons Cons.prems obtain v where v: "new_variable block = Inr v"
        and r: "synthesize rest (acc @ [Newline, BlockNode v]) = Inr out"
        by (auto split: sum.splits)
      from Cons.IH [OF r] obtain vs where
        vs: "Blocks out = Blocks (acc @ [Newline, BlockNode v]) @ vs"
          "map Labels vs = map Labels (filter (\<lambda>b. \<not> named_enabled b) rest)"
          "\<forall>x\<in>set vs. GetAttribute x ''default'' = Some (TokensForValue NullVal)"
        by blast
      have "Blocks out = Blocks acc @ (v # vs)"
        using vs(1) by (simp add: Blocks_append)
      moreover have "map Labels (v # vs) = map Labels (filter (\<lambda>b. \<not> named_enabled b) (block # rest))"
        using vs(2) False Cons Labels_new_variable [OF v] by (simp add: named_enabled_def)
      moreover have "\<forall>x\<in>set (v # vs). GetAttribute x ''default'' = Some (TokensForValue NullVal)"
        using vs(3) new_variable_default [OF v] by simp
      ultimately show ?thesis by blast
    qed
  qed
qed

text \<open>The legacy loop does the same and cannot panic on declarations that all have a label.\<close>

lemma synthesize_legacy_Blocks:
  "\<forall>b\<in>set varFile. Labels b \<noteq> [] \<Longrightarrow>
     \<exists>out vs. synthesize_legacy varFile acc = Inr out \<and> Blocks out = Blocks acc @ vs
       \<and> map Labels vs = map Labels (filter (\<lambda>b. \<not> named_enabled b) varFile)
       \<and> (\<forall>v\<in>set vs. GetAttribute v ''default'' = Some (TokensForValue NullVal))"
proof (induction varFile arbitrary: acc)
  case Nil
  then show ?case by simp
next
  case (Cons block rest)
  then obtain l ls where l: "Labels block = l # ls" by (cases "Labels block") auto
  from Cons.prems have rest: "\<forall>b\<in>set rest. Labels b \<noteq> []" by simp
  show ?case
  proof (cases "l = ''enabled''")
    case True
    from Cons.IH [OF rest, of acc] True l show ?thesis
      by (simp add: named_enabled_def)
  next
    case False
    let ?v = "legacy_variable block"
    from Cons.IH [OF rest, of "acc @ [Newline, BlockNode ?v]"] obtain out vs where
      vs: "synthesize_legacy rest (acc @ [Newline, BlockNode ?v]) = Inr out"
        "Blocks out = Blocks (acc @ [Newline, BlockNode ?v]) @ vs"
        "map Labels vs = map Labels (filter (\<lambda>b. \<not> named_enabled b) rest)"
        "\<forall>x\<in>set vs. GetAttribute x ''default'' = Some (TokensForValue NullVal)"
      by blast
    have "synthesize_legacy (block # rest) acc = Inr out"
      using vs(1) l False by simp
    moreover have "Blocks out = Blocks acc @ (?v # vs)"
      using vs(2) by (simp add: Blocks_append)
    moreover have "map Labels (?v # vs) = map Labels (filter (\<lambda>b. \<not> named_enabled b) (block # rest))"
      using vs(3) False l by (simp add: named_enabled_def Labels_legacy_variable)
    moreover have "\<forall>x\<in>set (?v # vs). GetAttribute x ''default'' = Some (TokensForValue NullVal)"
      using vs(4) legacy_variable_default by simp
    ultimately show ?thesis by blast
  qed
qed

lemma named_enabled_Labels:
  assumes "map Labels vs = map Labels (filter (\<lambda>b. \<not> named_enabled b) bs)"
  shows "\<forall>v\<in>set vs. \<not> named_enabled v"
proof
  fix v assume "v \<in> set vs"
  then have "Labels v \<in> set (map Labels vs)" by simp
  with assms obtain b where "b \<in> set bs" "\<not> named_enabled b" "Labels b = Labels v"
    by auto
  then show "\<not> named_enabled v" by (simp add: named_enabled_def)
qed

text \<open>
  Claim C4. Whatever the extracted declarations are, also when one of them is named
  "enabled", the document that the synthesizer builds has no block named "enabled": its
  blocks are, by their labels and in order, the declarations that are not named "enabled".
  For the current synthesizer this is about every document it builds (it builds none when it
  panics); the legacy synthesizer builds one for every list of declarations that have a
  label, as extracted declarations do.
\<close>

theorem C4_enabled_never_emitted:
  "(synthesize varFile [] = Inr out \<longrightarrow>
      (\<forall>v\<in>set (Blocks out). \<not> named_enabled v)
      \<and> map Labels (Blocks out) = map Labels (filter (\<lambda>b. \<not> named_enabled b) varFile))
   \<and> ((\<forall>b\<in>set varFile. Labels b \<noteq> []) \<longrightarrow>
      (\<exists>out'. synthesize_legacy varFile [] = Inr out'
         \<and> (\<forall>v\<in>set (Blocks out'). \<not> named_enabled v)
         \<and> map Labels (Blocks out') = map Labels (filter (\<lambda>b. \<not> named_enabled b) varFile)))"
proof (intro conjI impI)
  assume "synthesize varFile [] = Inr out"
  from synthesize_Blocks [OF this]
  show l: "map Labels (Blocks out) = map Labels (filter (\<lambda>b. \<not> named_enabled b) varFile)"
    by auto
  from named_enabled_Labels [OF l] show "\<forall>v\<in>set (Blocks out). \<not> named_enabled v" .
next
  assume "\<forall>b\<in>set varFile. Labels b \<noteq> []"
  from synthesize_legacy_Blocks [OF this, of "[]"] obtain out' where
    o: "synthesize_legacy varFile [] = Inr out'"
      "map Labels (Blocks out') = map Labels (filter (\<lambda>b. \<not> named_enabled b) varFile)"
    by auto
  from named_enabled_Labels [OF o(2)] o
  show "\<exists>out'. synthesize_legacy varFile [] = Inr out'
         \<and> (\<forall>v\<in>set (Blocks out'). \<not> named_enabled v)
         \<and> map Labels (Blocks out') = map Labels (filter (\<lambda>b. \<not> named_enabled b) varFile)"
    by blast
qed

theorem C4_enabled_never_emitted_witness:
  "(\<exists>out. synthesize [ex_enabled, ex_size, ex_replicas] [] = Inr out
      \<and> (\<forall>v\<in>set (Blocks out). \<not> named_enabled v)
      \<and> map Labels (Blocks out) = [ [''size''], [''replicas''] ])
   \<and> list_all (\<lambda>b. Labels b \<noteq> []) [ex_enabled, ex_size, ex_replicas]
   \<and> (\<exists>out'. synthesize_legacy [ex_enabled, ex_size, ex_replicas] [] = Inr out'
      \<and> (\<forall>v\<in>set (Blocks out'). \<not> named_enabled v)
      \<and> map Labels (Blocks out') = [ [''size''], [''replicas''] ])"
proof -
  have "\<not> isl (synthesize [ex_enabled, ex_size, ex_replicas] [])"
    by code_simp
  then have run: "\<exists>out. synthesize [ex_enabled, ex_size, ex_replicas] [] = Inr out"
    by (cases "synthesize [ex_enabled, ex_size, ex_replicas] []") auto
  have labels: "\<forall>b\<in>set [ex_enabled, ex_size, ex_replicas]. Labels b \<noteq> []"
    by (simp add: ex_enabled_def ex_size_def ex_replicas_def)
  have kept: "map Labels (filter (\<lambda>b. \<not> named_enabled b) [ex_enabled, ex_size, ex_replicas])
      = [ [''size''], [''replicas''] ]"
    by (simp add: named_enabled_def ex_enabled_def ex_size_def ex_replicas_def)
  from run obtain out where out: "synthesize [ex_enabled, ex_size, ex_replicas] [] = Inr out" ..
  from C4_enabled_never_emitted [of "[ex_enabled, ex_size, ex_replicas]" out] out labels kept
  show ?thesis by auto
qed

text \<open>
  Claim C5. Every block that the synthesizer emits has the null literal as its default
  attribute, whatever the default of the declaration it comes from (present or absent, null
  or not).
\<close>

theorem C5_default_always_null:
  "(synthesize varFile [] = Inr out \<longrightarrow>
      (\<forall>v\<in>set (Blocks out). GetAttribute v ''default'' = Some (TokensForValue NullVal)))
   \<and> ((\<forall>b\<in>set varFile. Labels b \<noteq> []) \<longrightarrow>
      (\<exists>out'. synthesize_legacy varFile [] = Inr out'
         \<and> (\<forall>v\<in>set (Blocks out'). GetAttribute v ''default'' = Some (TokensForValue NullVal))))"
proof (intro conjI impI)
  assume "synthesize varFile [] = Inr out"
  from synthesize_Blocks [OF this]
  show "\<forall>v\<in>set (Blocks out). GetAttribute v ''default'' = Some (TokensForValue NullVal)"
    by auto
next
  assume "\<forall>b\<in>set varFile. Labels b \<noteq> []"
  from synthesize_legacy_Blocks [OF this, of "[]"]
  show "\<exists>out'. synthesize_legacy varFile [] = Inr out'
         \<and> (\<forall>v\<in>set (Blocks out'). GetAttribute v ''default'' = Some (TokensForValue NullVal))"
    by auto
qed

theorem C5_default_always_null_witness:
  "(\<exists>out. synthesize [ex_size, ex_namespace, ex_replicas] [] = Inr out
      \<and> length (Blocks out) = 3
      \<and> (\<forall>v\<in>set (Blocks out). GetAttribute v ''default'' = Some [Token TokenIdent ''null'']))
   \<and> list_all (\<lambda>b. Labels b \<noteq> []) [ex_size, ex_namespace, ex_replicas]
   \<and> (\<exists>out'. synthesize_legacy [ex_size, ex_namespace, ex_replicas] [] = Inr out'
      \<and> length (Blocks out') = 3
      \<and> (\<forall>v\<in>set (Blocks out'). GetAttribute v ''default'' = Some [Token TokenIdent ''null'']))"
proof -
  have "\<not> isl (synthesize [ex_size, ex_namespace, ex_replicas] [])
      \<and> length (Blocks (projr (synthesize [ex_size, ex_namespace, ex_replicas] []))) = 3"
    by code_simp
  then have run: "\<exists>out. synthesize [ex_size, ex_namespace, ex_replicas] [] = Inr out
      \<and> length (Blocks out) = 3"
    by (cases "synthesize [ex_size, ex_namespace, ex_replicas] []") auto
  have run': "length (Blocks (projr (synthesize_legacy [ex_size, ex_namespace, ex_replicas] []))) = 3"
    by code_simp
  have labels: "\<forall>b\<in>set [ex_size, ex_namespace, ex_replicas]. Labels b \<noteq> []"
    by (simp add: ex_size_def ex_namespace_def ex_replicas_def)
  from run obtain out where out: "synthesize [ex_size, ex_namespace, ex_replicas] [] = Inr out"
    "length (Blocks out) = 3" by blast
  from C5_default_always_null [of "[ex_size, ex_namespace, ex_replicas]" out] out labels run'
  show ?thesis by (auto simp: TokensForValue.simps(1))
qed

section \<open>The description of an emitted block\<close>
















text \<open>
  The two variants differ where the type is not "string" and the default has quotes: the
  current synthesizer keeps them, the legacy one removes every quote whatever the type.
\<close>

lemma legacy_display_ignores_type:
  "map_option tokens_Bytes (GetAttribute (projr (new_variable ex_any)) ''description'')
     = Some ([dquote] @ ''desc Defaults to `'' @ [CHR 0x5C, dquote] @ ''foo''
             @ [CHR 0x5C, dquote] @ ''`.'' @ [dquote])
   \<and> map_option tokens_Bytes (GetAttribute (legacy_variable ex_any) ''description'')
     = Some ([dquote] @ ''desc Defaults to `foo`.'' @ [dquote])"
  by code_simp



section \<open>Declarations without a type\<close>

lemma new_variable_untyped:
  "GetAttribute block ''type'' = None \<Longrightarrow> new_variable block = Inl NilPointerDereference"
  by (simp add: new_variable_def)

lemma new_variable_typed:
  "GetAttribute block ''type'' = Some ty \<Longrightarrow> \<exists>v. new_variable block = Inr v"
  by (simp add: new_variable_def default_display_def Let_def split: option.splits)

lemma synthesize_panics:
  "\<forall>b\<in>set varFile. Labels b \<noteq> [] \<Longrightarrow>
   (\<exists>b\<in>set varFile. \<not> named_enabled b \<and> GetAttribute b ''type'' = None)
     \<Longrightarrow> synthesize varFile acc = Inl NilPointerDereference"
proof (induction varFile arbitrary: acc)
  case Nil
  then show ?case by simp
next
  case (Cons block rest)
  then obtain l ls where l: "Labels block = l # ls" by (cases "Labels block") auto
  show ?case
  proof (cases "\<not> named_enabled block \<and> GetAttribute block ''type'' = None")
    case True
    then have "new_variable block = Inl NilPointerDereference"
      by (simp add: new_variable_untyped)
    with True l show ?thesis by (simp add: named_enabled_def)
  next
    case False
    with Cons.prems have r: "\<forall>b\<in>set rest. Labels b \<noteq> []"
      "\<exists>b\<in>set rest. \<not> named_enabled b \<and> GetAttribute b ''type'' = None"
      by auto
    show ?thesis
    proof (cases "l = ''enabled''")
      case True
      with l Cons.IH [OF r] show ?thesis by simp
    next
      case ne: False
      with False l obtain ty where "GetAttribute block ''type'' = Some ty"
        by (auto simp: named_enabled_def)
      then obtain v where "new_variable block = Inr v"
        using new_variable_typed by blast
      with l ne Cons.IH [OF r] show ?thesis by simp
    qed
  qed
qed

lemma synthesize_returns:
  "\<forall>b\<in>set varFile. Labels b \<noteq> [] \<Longrightarrow>
   \<forall>b\<in>set varFile. named_enabled b \<or> GetAttribute b ''type'' \<noteq> None
     \<Longrightarrow> \<exists>out. synthesize varFile acc = Inr out"
proof (induction varFile arbitrary: acc)
  case Nil
  then show ?case by simp
next
  case (Cons block rest)
  then obtain l ls where l: "Labels block = l # ls" by (cases "Labels block") auto
  from Cons.prems have r: "\<forall>b\<in>set rest. Labels b \<noteq> []"
      "\<forall>b\<in>set rest. named_enabled b \<or> GetAttribute b ''type'' \<noteq> None"
    by auto
  show ?case
  proof (cases "l = ''enabled''")
    case True
    from Cons.IH [OF r, of acc] obtain out where "synthesize rest acc = Inr out" ..
    with l True show ?thesis by simp
  next
    case False
    from Cons.prems(2) have "named_enabled block \<or> GetAttribute block ''type'' \<noteq> None"
      by simp
    with l False obtain ty where "GetAttribute block ''type'' = Some ty"
      by (auto simp: named_enabled_def)
    then obtain v where v: "new_variable block = Inr v"
      using new_variable_typed by blast
    from Cons.IH [OF r, of "acc @ [Newline, BlockNode v]"] obtain out
      where "synthesize rest (acc @ [Newline, BlockNode v]) = Inr out" ..
    with l False v show ?thesis by simp
  qed
qed

text \<open>
  Claim C9. The current \<^verbatim>\<open>syncAddonVariables\<close> returns only when every declaration that
  is not named "enabled" has a type attribute: with a declaration without one (also one that
  has a description and a default), it ends in a nil-pointer panic, not in a returned error.
\<close>

theorem C9_missing_type_panics:
  assumes "\<forall>b\<in>set varFile. Labels b \<noteq> []"
  shows "((\<exists>b\<in>set varFile. \<not> named_enabled b \<and> GetAttribute b ''type'' = None) \<longrightarrow>
            syncAddonVariables lib vp moduleName varFile w = Panics NilPointerDereference)
    \<and> ((\<forall>b\<in>set varFile. named_enabled b \<or> GetAttribute b ''type'' \<noteq> None) \<longrightarrow>
            (\<exists>r. syncAddonVariables lib vp moduleName varFile w = Returns r))"
proof (intro conjI impI)
  assume "\<exists>b\<in>set varFile. \<not> named_enabled b \<and> GetAttribute b ''type'' = None"
  from synthesize_panics [OF assms this, of "[]"]
  show "syncAddonVariables lib vp moduleName varFile w = Panics NilPointerDereference"
    by (simp add: syncAddonVariables_def)
next
  assume "\<forall>b\<in>set varFile. named_enabled b \<or> GetAttribute b ''type'' \<noteq> None"
  from synthesize_returns [OF assms this, of "[]"]
  show "\<exists>r. syncAddonVariables lib vp moduleName varFile w = Returns r"
    by (auto simp: syncAddonVariables_def Let_def split: sum.splits)
qed

theorem C9_missing_type_panics_witness:
  "list_all (\<lambda>b. Labels b \<noteq> []) [ex_size, ex_untyped]
   \<and> GetAttribute ex_untyped ''description'' \<noteq> None
   \<and> GetAttribute ex_untyped ''default'' \<noteq> None
   \<and> GetAttribute ex_untyped ''type'' = None
   \<and> syncAddonVariables ex_lib ex_vp ''addon'' [ex_size, ex_untyped] ex_fs
        = Panics NilPointerDereference
   \<and> (\<exists>r. syncAddonVariables ex_lib ex_vp ''addon'' [ex_size, ex_enabled] ex_fs = Returns r)"
proof -
  have l1: "\<forall>b\<in>set [ex_size, ex_untyped]. Labels b \<noteq> []"
    by (simp add: ex_size_def ex_untyped_def)
  have l2: "\<forall>b\<in>set [ex_size, ex_enabled]. Labels b \<noteq> []"
    by (simp add: ex_size_def ex_enabled_def)
  have u: "GetAttribute ex_untyped ''description'' \<noteq> None"
    "GetAttribute ex_untyped ''default'' \<noteq> None"
    "GetAttribute ex_untyped ''type'' = None" "\<not> named_enabled ex_untyped"
    by (simp_all add: GetAttribute_def ex_untyped_def quoted_def named_enabled_def)
  have t: "GetAttribute ex_size ''type'' \<noteq> None" "GetAttribute ex_enabled ''type'' \<noteq> None"
    by (simp_all add: GetAttribute_def ex_size_def ex_enabled_def)
  from C9_missing_type_panics [OF l1, of ex_lib ex_vp "''addon''" ex_fs]
    C9_missing_type_panics [OF l2, of ex_lib ex_vp "''addon''" ex_fs] l1 u t
  show ?thesis by simp
qed

section \<open>The orchestrator loop\<close>


























text \<open>
  Claim C6. When the modules base directory does not exist, \<^verbatim>\<open>ProcessModules\<close> returns
  nil: nothing is processed, skipped or counted as an error, no per-module function is
  called and no file is written. This holds for every context.
\<close>

theorem C6_missing_directory_is_success:
  "(ReadDir w (modulesDir vp) = Inl ErrNotExist \<longrightarrow>
      (\<exists>st. ProcessModules lib vp ctx w = Returns (None, st)
         \<and> processedCount st = 0 \<and> skippedCount st = 0 \<and> errorCount st = 0
         \<and> calls st = [] \<and> files (world st) = files w))
   \<and> (ReadDir w dir = Inl ErrNotExist \<longrightarrow>
      (\<exists>st. ProcessModules_legacy lib ctx dir w = Returns (None, st)
         \<and> processedCount st = 0 \<and> skippedCount st = 0 \<and> errorCount st = 0
         \<and> calls st = [] \<and> files (world st) = files w))"
  by (simp add: ProcessModules_def ProcessModules_legacy_def ProcessModules_with_def start_def)

theorem C6_missing_directory_is_success_witness:
  "ReadDir ex_fs (modulesDir ex_vp_absent) = Inl ErrNotExist
   \<and> returned (ProcessModules ex_lib ex_vp_absent NeverDone ex_fs) = Returns None
   \<and> ReadDir ex_fs ''work/absent'' = Inl ErrNotExist
   \<and> returned (ProcessModules_legacy ex_lib (DoneFrom 0 Canceled) ''work/absent'' ex_fs) = Returns None"
proof -
  have d: "ReadDir ex_fs (modulesDir ex_vp_absent) = Inl ErrNotExist"
    "ReadDir ex_fs ''work/absent'' = Inl ErrNotExist"
    by (simp_all add: ex_fs_def ex_vp_absent_def NewVariableProcessor_def Join_def)
  from C6_missing_directory_is_success [of ex_fs ex_vp_absent ex_lib NeverDone "''work/absent''"]
    C6_missing_directory_is_success [of ex_fs ex_vp_absent ex_lib "DoneFrom 0 Canceled" "''work/absent''"] d
  show ?thesis by auto
qed

text \<open>
  Claim C7 says that a context already cancelled before the loop always gives the
  cancellation error. The context is only observed at the head of the loop body, once for
  each directory entry: with an empty directory the loop body never runs and the call
  returns nil.
\<close>

theorem C7_cancelled_empty_directory_counterexample:
  "ReadDir ex_fs (modulesDir ex_vp_empty) = Inr []
   \<and> returned (ProcessModules ex_lib ex_vp_empty (DoneFrom 0 Canceled) ex_fs) = Returns None
   \<and> returned (ProcessModules ex_lib ex_vp_empty (DoneFrom 0 Canceled) ex_fs)
       \<noteq> Returns (Some (ContextErr Canceled))
   \<and> returned (ProcessModules_legacy ex_lib (DoneFrom 0 Canceled) ''work/empty'' ex_fs) = Returns None"
  by (simp add: ProcessModules_def ProcessModules_legacy_def ProcessModules_with_def
        ex_fs_def ex_vp_empty_def NewVariableProcessor_def Join_def start_def)

text \<open>
  Claim C7, amended. With a context already cancelled or expired before the loop starts, no
  module is processed (the run is still in its start state), and the call returns the error
  of the context exactly when the directory listing has at least one entry, of any kind;
  with an empty listing or a missing directory it returns nil, and with another failure of
  the listing it returns the read error.
\<close>

theorem C7_cancelled_before_loop:
  "ProcessModules lib vp (DoneFrom 0 e) w =
     Returns (case ReadDir w (modulesDir vp) of
                Inl err \<Rightarrow> if err = ErrNotExist then None
                           else Some (FailedToReadDirectory (modulesDir vp) err)
              | Inr [] \<Rightarrow> None
              | Inr (entry # rest) \<Rightarrow> Some (ContextErr e),
              start w)
   \<and> ProcessModules_legacy lib (DoneFrom 0 e) dir w =
     Returns (case ReadDir w dir of
                Inl err \<Rightarrow> if err = ErrNotExist then None
                           else Some (FailedToReadDirectory dir err)
              | Inr [] \<Rightarrow> None
              | Inr (entry # rest) \<Rightarrow> Some (ContextErr e),
              start w)"
  by (simp add: ProcessModules_def ProcessModules_legacy_def ProcessModules_with_def
        ctx_Err_def start_def split: sum.splits list.splits)

theorem C7_cancelled_before_loop_witness:
  "ReadDir ex_fs (modulesDir ex_vp) = Inr ex_entries
   \<and> ProcessModules ex_lib ex_vp (DoneFrom 0 DeadlineExceeded) ex_fs
      = Returns (Some (ContextErr DeadlineExceeded), start ex_fs)
   \<and> calls (start ex_fs) = []
   \<and> ProcessModules_legacy ex_lib (DoneFrom 0 Canceled) ''work/locked'' ex_fs
      = Returns (Some (FailedToReadDirectory ''work/locked'' ErrPermission), start ex_fs)"
proof -
  have d: "ReadDir ex_fs (modulesDir ex_vp) = Inr ex_entries"
    "ReadDir ex_fs ''work/locked'' = Inl ErrPermission"
    by (simp_all add: ex_fs_def ex_vp_def NewVariableProcessor_def Join_def)
  have e: "ex_entries = hd ex_entries # tl ex_entries" by (simp add: ex_entries_def)
  from C7_cancelled_before_loop [of ex_lib ex_vp DeadlineExceeded ex_fs "''work/locked''"]
    C7_cancelled_before_loop [of ex_lib ex_vp Canceled ex_fs "''work/locked''"] d e
  show ?thesis by (auto simp: start_def split: list.splits)
qed






section \<open>The rewrite of the consumer file\<close>

lemma ternary_tokens_spec:
  "ternary_tokens defaults name = spec_ternary name (defaults_at defaults name)"
  by (simp add: ternary_tokens_def spec_ternary_def Let_def TokensForIdentifier_def
        TokensForFunctionCall_def)

lemma build_defaults_table:
  "\<forall>b\<in>set varFile. Labels b \<noteq> [] \<Longrightarrow>
     build_defaults varFile defaults = Inr (defaults ++ map_of (rev (map default_entry varFile)))"
proof (induction varFile arbitrary: defaults)
  case Nil
  show ?case by simp
next
  case (Cons block rest)
  then obtain name ls where l: "Labels block = name # ls" by (cases "Labels block") auto
  from Cons.prems have r: "\<forall>b\<in>set rest. Labels b \<noteq> []" by simp
  obtain d where d: "default_entry block = (name, d)"
    "build_defaults (block # rest) defaults = build_defaults rest (defaults(name \<mapsto> d))"
    using l by (cases "GetAttribute block ''default''") (simp_all add: default_entry_def)
  have e: "(defaults(name \<mapsto> d)) ++ map_of (rev (map default_entry rest))
      = defaults ++ map_of (rev (map default_entry (block # rest)))"
    using d(1) by (simp add: map_add_def fun_eq_iff split: option.splits)
  have "build_defaults (block # rest) defaults = build_defaults rest (defaults(name \<mapsto> d))"
    by (rule d(2))
  also have "\<dots> = Inr ((defaults(name \<mapsto> d)) ++ map_of (rev (map default_entry rest)))"
    by (rule Cons.IH [OF r])
  also have "\<dots> = Inr (defaults ++ map_of (rev (map default_entry (block # rest))))"
    by (simp only: e)
  finally show ?case .
qed

lemma set_attr_map:
  "distinct (map fst as) \<Longrightarrow> name \<in> fst ` set as \<Longrightarrow>
     set_attr as name ts = map (\<lambda>(n, old). if n = name then (n, ts) else (n, old)) as"
proof (induction as name ts rule: set_attr.induct)
  case (1 name ts)
  then show ?case by simp
next
  case (2 n old rest name ts)
  show ?case
  proof (cases "n = name")
    case True
    with 2(2) have "name \<notin> fst ` set rest" by simp
    then have "map (\<lambda>(n, old). if n = name then (n, ts) else (n, old)) rest = rest"
      by (induction rest) auto
    with True show ?thesis by simp
  next
    case False
    with 2 show ?thesis by auto
  qed
qed

lemma map_fst_set_attr:
  "name \<in> fst ` set as \<Longrightarrow> map fst (set_attr as name ts) = map fst as"
  by (induction as name ts rule: set_attr.induct) auto

lemma rewrite_attribute_Attrs:
  assumes "distinct (map fst (Attrs blk))" and "n \<in> fst ` set (Attrs blk)"
  shows "Attrs (rewrite_attribute defaults blk (n, ts))
     = map (\<lambda>(m, old). if m = n \<and> marked ts then (m, ternary_tokens defaults m) else (m, old))
         (Attrs blk)"
proof (cases "marked ts")
  case True
  then have "Attrs (rewrite_attribute defaults blk (n, ts))
      = set_attr (Attrs blk) n (ternary_tokens defaults n)"
    by (simp add: rewrite_attribute_def marked_def SetAttributeRaw_def)
  also have "\<dots> = map (\<lambda>(m, old). if m = n then (m, ternary_tokens defaults n) else (m, old)) (Attrs blk)"
    by (rule set_attr_map [OF assms])
  also have "\<dots> = map (\<lambda>(m, old). if m = n \<and> marked ts then (m, ternary_tokens defaults m)
                              else (m, old)) (Attrs blk)"
    using True by (intro map_cong) auto
  finally show ?thesis .
next
  case False
  then have "rewrite_attribute defaults blk (n, ts) = blk"
    by (simp add: rewrite_attribute_def marked_def)
  moreover have "map (\<lambda>(m, old). if m = n \<and> marked ts then (m, ternary_tokens defaults m)
                              else (m, old)) (Attrs blk) = Attrs blk"
    using False by (induction "Attrs blk") auto
  ultimately show ?thesis by simp
qed

lemma rewrite_attribute_frame:
  "block_Type (rewrite_attribute defaults blk na) = block_Type blk"
  "Labels (rewrite_attribute defaults blk na) = Labels blk"
  "Nested (rewrite_attribute defaults blk na) = Nested blk"
  by (cases na; simp add: rewrite_attribute_def SetAttributeRaw_def Let_def)+

lemma foldl_rewrite_Attrs:
  assumes "distinct (map fst (Attrs blk))" and "fst ` set as \<subseteq> fst ` set (Attrs blk)"
  shows "Attrs (foldl (rewrite_attribute defaults) blk as)
     = map (\<lambda>(m, old). if (\<exists>ts. (m, ts) \<in> set as \<and> marked ts)
                          then (m, ternary_tokens defaults m) else (m, old))
         (Attrs blk)"
  using assms
proof (induction as arbitrary: blk)
  case Nil
  have "map (\<lambda>(m, old). (m, old)) (Attrs blk) = Attrs blk" by (induction "Attrs blk") auto
  then show ?case by simp
next
  case (Cons na rest)
  obtain n ts where na: "na = (n, ts)" by (cases na)
  let ?b = "rewrite_attribute defaults blk (n, ts)"
  from Cons.prems(2) na have n: "n \<in> fst ` set (Attrs blk)" by auto
  note step = rewrite_attribute_Attrs [OF Cons.prems(1) n, of defaults ts]
  have keys: "map fst (Attrs ?b) = map fst (Attrs blk)"
    unfolding step by (induction "Attrs blk") auto
  then have d: "distinct (map fst (Attrs ?b))" using Cons.prems(1) by simp
  have "fst ` set (Attrs ?b) = fst ` set (Attrs blk)"
    using keys by (metis list.set_map)
  with Cons.prems(2) have s: "fst ` set rest \<subseteq> fst ` set (Attrs ?b)" by auto
  have "Attrs (foldl (rewrite_attribute defaults) blk (na # rest))
      = Attrs (foldl (rewrite_attribute defaults) ?b rest)"
    using na by simp
  also have "\<dots> = map (\<lambda>(m, old). if (\<exists>t. (m, t) \<in> set rest \<and> marked t)
                          then (m, ternary_tokens defaults m) else (m, old)) (Attrs ?b)"
    by (rule Cons.IH [OF d s])
  also have "\<dots> = map (\<lambda>(m, old). if (\<exists>t. (m, t) \<in> set (na # rest) \<and> marked t)
                          then (m, ternary_tokens defaults m) else (m, old)) (Attrs blk)"
    unfolding step na by (auto simp: comp_def split: prod.splits)
  finally show ?case .
qed

text \<open>
  A module block of a parsed file (its attribute names are distinct): every attribute whose
  expression text contains a marker gets the ternary, all others keep their tokens.
\<close>

lemma rewrite_block_module:
  assumes "block_Type block = ''module''" and "distinct (map fst (Attrs block))"
  shows "Attrs (rewrite_block defaults block)
     = map (\<lambda>(name, attribute). if marked attribute then (name, ternary_tokens defaults name)
                                  else (name, attribute)) (Attrs block)"
proof -
  have "Attrs (rewrite_block defaults block)
      = map (\<lambda>(m, old). if (\<exists>ts. (m, ts) \<in> set (Attrs block) \<and> marked ts)
                          then (m, ternary_tokens defaults m) else (m, old)) (Attrs block)"
    using assms(1) foldl_rewrite_Attrs [OF assms(2), of "Attrs block" defaults]
    by (simp add: rewrite_block_def)
  also have "\<dots> = map (\<lambda>(name, attribute). if marked attribute then (name, ternary_tokens defaults name)
                                  else (name, attribute)) (Attrs block)"
  proof (rule map_cong [OF refl])
    fix x assume x: "x \<in> set (Attrs block)"
    obtain m old where mo: "x = (m, old)" by (cases x)
    have "(\<exists>ts. (m, ts) \<in> set (Attrs block) \<and> marked ts) = marked old"
      using x mo assms(2) by (auto dest: eq_key_imp_eq_value)
    then show "(case x of (m, old) \<Rightarrow> if (\<exists>ts. (m, ts) \<in> set (Attrs block) \<and> marked ts)
                          then (m, ternary_tokens defaults m) else (m, old))
        = (case x of (name, attribute) \<Rightarrow> if marked attribute then (name, ternary_tokens defaults name)
                                  else (name, attribute))"
      using mo by simp
  qed
  finally show ?thesis .
qed

lemma rewrite_block_other:
  "block_Type block \<noteq> ''module'' \<Longrightarrow> rewrite_block defaults block = block"
  by (simp add: rewrite_block_def)

lemma map_of_map_keyed:
  "map_of (map (\<lambda>(k, v). (k, f k v)) xs) k = map_option (f k) (map_of xs k)"
  by (induction xs) auto

text \<open>
  The part of the rewrite that works as intended: in a module block, an attribute with a
  marker becomes the ternary whose last argument is what the table of defaults gives for its
  name, and an attribute without a marker keeps its tokens.
\<close>

lemma rewrite_module_attribute:
  assumes "block_Type block = ''module''" and "distinct (map fst (Attrs block))"
    and "(name, attribute) \<in> set (Attrs block)"
  shows "GetAttribute (rewrite_block defaults block) name
     = Some (if marked attribute then spec_ternary name (defaults_at defaults name)
             else attribute)"
proof -
  have m: "map_of (Attrs block) name = Some attribute"
    using assms(2,3) by (rule map_of_is_SomeI)
  have "(\<lambda>(name, attribute). if marked attribute then (name, ternary_tokens defaults name)
                                  else (name, attribute))
      = (\<lambda>(k, v). (k, if marked v then ternary_tokens defaults k else v))"
    by (auto simp: fun_eq_iff)
  then have "Attrs (rewrite_block defaults block)
      = map (\<lambda>(k, v). (k, if marked v then ternary_tokens defaults k else v)) (Attrs block)"
    using rewrite_block_module [OF assms(1,2), of defaults] by simp
  then have "GetAttribute (rewrite_block defaults block) name
      = map_option (\<lambda>v. if marked v then ternary_tokens defaults name else v)
          (map_of (Attrs block) name)"
    unfolding GetAttribute_def
    using map_of_map_keyed [of "\<lambda>k v. if marked v then ternary_tokens defaults k else v"
        "Attrs block" name]
    by simp
  with m show ?thesis by (simp add: ternary_tokens_spec)
qed

lemma defaults_at_table:
  assumes "\<forall>b\<in>set varFile. Labels b \<noteq> []"
    and "build_defaults varFile Map.empty = Inr defaults"
  shows "defaults_at defaults name
     = (case map_of (rev (map default_entry varFile)) name of None \<Rightarrow> [] | Some d \<Rightarrow> d)"
  using build_defaults_table [OF assms(1), of Map.empty] assms(2)
  by (simp add: defaults_at_def)

text \<open>
  Claim C3, at the input where the code departs from it. The consumer block has an
  attribute \<^verbatim>\<open>mode\<close> whose expression contains the marker "lookup" and whose name is not in
  the table of defaults built from the declarations. The claim gives it the ternary with a
  null literal as the default of the lookup. The code reads the Go map at the absent key,
  gets no tokens, and emits the ternary with nothing after the last comma:
  \<^verbatim>\<open>var.mode != null ? var.mode : lookup(local.addon, "mode", )\<close>. The other attributes are as
  the claim says: \<^verbatim>\<open>size\<close>, which has a marker and a declared default, gets the ternary with
  that default, and the attributes without a marker keep their tokens.
\<close>

theorem C3_absent_name_empty_default:
  "(case build_defaults [ex_size, ex_enabled] Map.empty of
      Inl p \<Rightarrow> False
    | Inr defaults \<Rightarrow>
        defaults ''mode'' = None
        \<and> GetAttribute (rewrite_block defaults ex_module) ''mode''
            = Some (spec_ternary ''mode'' [])
        \<and> GetAttribute (rewrite_block defaults ex_module) ''mode''
            \<noteq> Some (spec_ternary ''mode'' (TokensForValue NullVal))
        \<and> map_option tokens_Bytes (GetAttribute (rewrite_block defaults ex_module) ''mode'')
            = Some (''var.mode!=null?var.mode:lookup(local.addon,'' @ [dquote] @ ''mode''
                    @ [dquote] @ '',)'')
        \<and> GetAttribute (rewrite_block defaults ex_module) ''size''
            = Some (spec_ternary ''size'' (quoted ''10''))
        \<and> GetAttribute (rewrite_block defaults ex_module) ''enabled''
            = GetAttribute ex_module ''enabled''
        \<and> GetAttribute (rewrite_block defaults ex_module) ''source''
            = GetAttribute ex_module ''source'')"
  by code_simp

end
